theory Spec2Isabelle
  imports Complex_Main
begin

section \<open>The half-cheetah environment with a target direction\<close>

text \<open>
  A shallow embedding of \<^verbatim>\<open>garage/envs/half_cheetah_dir_env.py\<close> (class
  \<^verbatim>\<open>HalfCheetahDirEnv\<close>) and of the call that \<^verbatim>\<open>run_garage\<close> of
  \<^verbatim>\<open>test_benchmark_rl2_new2.py\<close> makes to the training loop.

  Conventions of the embedding:
  \<^item> Python and numpy floating-point numbers are read as real numbers: finite values,
    no rounding, no infinities and no NaN. A quotient is meaningful only for a divisor
    other than zero, so a statement that reads a quotient assumes the divisor non-zero.
  \<^item> A dictionary is a map from strings; a missing key is \<^verbatim>\<open>KeyError\<close>.
  \<^item> A method that mutates \<^verbatim>\<open>self\<close> takes the environment and returns the new one;
    a raised exception is the left injection of a sum, and then the environment is not
    returned.
  \<^item> The physics simulator, the observation function and numpy's random generator are
    not code of this class: they are parameters, bundled in \<open>meta_base\<close>.
\<close>

subsection \<open>Data\<close>

datatype error = KeyError | IndexError | ValueError | SimulationError

text \<open>A task is a dictionary; the class reads its key \<^verbatim>\<open>'direction'\<close>.\<close>

type_synonym task = "string \<rightharpoonup> real"

text \<open>The \<^verbatim>\<open>infos\<close> dictionary that \<^verbatim>\<open>step\<close> returns.\<close>

type_synonym infos = "string \<rightharpoonup> real"

text \<open>
  \<^verbatim>\<open>self.sim.data\<close>: the position and velocity arrays of the simulator.
\<close>

record sim_data =
  qpos :: "real list"
  qvel :: "real list"

text \<open>
  The fields that the base class \<^verbatim>\<open>HalfCheetahEnvMetaBase\<close> owns and that this
  class reads: the simulator, \<^verbatim>\<open>frame_skip\<close>, \<^verbatim>\<open>dt\<close> and the seeded random
  source \<^verbatim>\<open>np_random\<close>, whose state has the type \<open>'g\<close>.
\<close>

record 'g half_cheetah_env_meta_base =
  sim :: sim_data
  frame_skip :: nat
  dt :: real
  np_random :: 'g

text \<open>\<^verbatim>\<open>HalfCheetahDirEnv\<close> adds the field \<^verbatim>\<open>_goal_dir\<close>.\<close>

record 'g half_cheetah_dir_env = "'g half_cheetah_env_meta_base" +
  goal_dir :: real

text \<open>
  The inherited methods the class calls:
  \<^item> \<open>do_simulation s action n\<close> is \<^verbatim>\<open>self.do_simulation(action, n)\<close> on the simulator
    state \<open>s\<close>; it may raise (a malformed action, an unstable simulation);
  \<^item> \<open>get_obs s\<close> is \<^verbatim>\<open>self._get_obs()\<close>;
  \<^item> \<open>np_binomial g n p k\<close> is \<^verbatim>\<open>np_random.binomial(n, p=p, size=(k, ))\<close> on the
    generator state \<open>g\<close>: the array drawn and the generator's next state, or an error.
\<close>

record 'g meta_base =
  do_simulation :: "sim_data \<Rightarrow> real list \<Rightarrow> nat \<Rightarrow> error + sim_data"
  get_obs :: "sim_data \<Rightarrow> real list"
  np_binomial :: "'g \<Rightarrow> nat \<Rightarrow> real \<Rightarrow> int \<Rightarrow> error + (int list \<times> 'g)"

text \<open>What \<^verbatim>\<open>step\<close> returns: observation, reward, done, infos.\<close>

type_synonym step_result = "real list \<times> real \<times> bool \<times> infos"

subsection \<open>The constructor\<close>

text \<open>
  \<^verbatim>\<open>task = task or {'direction': 1.}\<close>: \<^verbatim>\<open>None\<close> and the empty dictionary are both
  falsy, so both give the default task.
\<close>

definition default_task :: task where
  "default_task = [''direction'' \<mapsto> 1]"

definition task_or_default :: "task option \<Rightarrow> task" where
  "task_or_default task =
     (case task of
        None \<Rightarrow> default_task
      | Some t \<Rightarrow> if t = Map.empty then default_task else t)"

text \<open>
  \<^verbatim>\<open>__init__(self, task=None)\<close>. The argument \<open>base\<close> is what \<^verbatim>\<open>super().__init__()\<close>
  builds; it runs after \<^verbatim>\<open>_goal_dir\<close> is stored and does not write that field.
\<close>

definition init :: "'g half_cheetah_env_meta_base \<Rightarrow> task option \<Rightarrow> error + 'g half_cheetah_dir_env" where
  "init base task =
     (case (task_or_default task) ''direction'' of
        None \<Rightarrow> Inl KeyError
      | Some d \<Rightarrow>
          Inr \<lparr>sim = sim base, frame_skip = frame_skip base, dt = dt base,
               np_random = np_random base, goal_dir = d\<rparr>)"

subsection \<open>step\<close>

text \<open>\<^verbatim>\<open>0.5 * 1e-1 * np.sum(np.square(action))\<close>\<close>

definition ctrl_cost :: "real list \<Rightarrow> real" where
  "ctrl_cost action = 0.5 * (1 / 10) * sum_list (map (\<lambda>a. a\<^sup>2) action)"

text \<open>
  \<^verbatim>\<open>self.sim.data.qpos[0]\<close>: index 0 of an empty array raises \<^verbatim>\<open>IndexError\<close>.
\<close>

definition qpos0 :: "sim_data \<Rightarrow> error + real" where
  "qpos0 s = (case qpos s of [] \<Rightarrow> Inl IndexError | x # _ \<Rightarrow> Inr x)"

definition step ::
  "'g meta_base \<Rightarrow> 'g half_cheetah_dir_env \<Rightarrow> real list \<Rightarrow>
     error + (step_result \<times> 'g half_cheetah_dir_env)" where
  "step B self action =
     (case qpos0 (sim self) of
        Inl e \<Rightarrow> Inl e
      | Inr xposbefore \<Rightarrow>
     (case do_simulation B (sim self) action (frame_skip self) of
        Inl e \<Rightarrow> Inl e
      | Inr sim' \<Rightarrow>
     (case qpos0 sim' of
        Inl e \<Rightarrow> Inl e
      | Inr xposafter \<Rightarrow>
          (let forward_vel = (xposafter - xposbefore) / dt self;
               forward_reward = goal_dir self * forward_vel;
               cost = ctrl_cost action;
               observation = get_obs B sim';
               reward = forward_reward - cost;
               done = False;
               infos = [''reward_forward'' \<mapsto> forward_reward,
                        ''reward_ctrl'' \<mapsto> - cost,
                        ''task_dir'' \<mapsto> goal_dir self]
           in Inr ((observation, reward, done, infos), self\<lparr>sim := sim'\<rparr>)))))"

text \<open>
  A run: \<^verbatim>\<open>step\<close> called once for each action of a sequence, in order, on the
  environment the previous call left. An exception ends the run.
\<close>

fun rollout ::
  "'g meta_base \<Rightarrow> 'g half_cheetah_dir_env \<Rightarrow> real list list \<Rightarrow>
     error + (step_result list \<times> 'g half_cheetah_dir_env)" where
  "rollout B self [] = Inr ([], self)"
| "rollout B self (a # as) =
     (case step B self a of
        Inl e \<Rightarrow> Inl e
      | Inr (r, self') \<Rightarrow>
          (case rollout B self' as of
             Inl e \<Rightarrow> Inl e
           | Inr (rs, self'') \<Rightarrow> Inr (r # rs, self'')))"

subsection \<open>sample\_tasks and set\_task\<close>

text \<open>
  \<^verbatim>\<open>directions = 2 * self.np_random.binomial(1, p=0.5, size=(num_tasks, )) - 1\<close>,
  then one dictionary for each direction. The integers of the array are read as reals
  when they are stored in a task. The generator advances.
\<close>

definition sample_tasks ::
  "'g meta_base \<Rightarrow> 'g half_cheetah_dir_env \<Rightarrow> int \<Rightarrow>
     error + (task list \<times> 'g half_cheetah_dir_env)" where
  "sample_tasks B self num_tasks =
     (case np_binomial B (np_random self) 1 (1 / 2) num_tasks of
        Inl e \<Rightarrow> Inl e
      | Inr (draws, g') \<Rightarrow>
          (let directions = map (\<lambda>b. 2 * b - 1) draws;
               tasks = map (\<lambda>direction. [''direction'' \<mapsto> real_of_int direction]) directions
           in Inr (tasks, self\<lparr>np_random := g'\<rparr>)))"

text \<open>\<^verbatim>\<open>self._goal_dir = task['direction']\<close>\<close>

definition set_task :: "'g half_cheetah_dir_env \<Rightarrow> task \<Rightarrow> error + 'g half_cheetah_dir_env" where
  "set_task self task =
     (case task ''direction'' of
        None \<Rightarrow> Inl KeyError
      | Some d \<Rightarrow> Inr (self\<lparr>goal_dir := d\<rparr>))"

subsection \<open>Reading a result of step\<close>

text \<open>The components of the tuple that \<^verbatim>\<open>step\<close> returns.\<close>

definition observation_of :: "step_result \<Rightarrow> real list" where
  "observation_of r = fst r"

definition reward_of :: "step_result \<Rightarrow> real" where
  "reward_of r = fst (snd r)"

definition done_of :: "step_result \<Rightarrow> bool" where
  "done_of r = fst (snd (snd r))"

definition infos_of :: "step_result \<Rightarrow> infos" where
  "infos_of r = snd (snd (snd r))"

subsection \<open>Sequences of method calls\<close>

text \<open>
  The three methods of the class as calls on an environment, and a sequence of calls
  run in order on the environment the previous call left, until one raises. The values
  the calls return are dropped: only the environment is followed.
\<close>

datatype call = Step "real list" | SampleTasks int | SetTask task

fun call_env ::
  "'g meta_base \<Rightarrow> 'g half_cheetah_dir_env \<Rightarrow> call \<Rightarrow> error + 'g half_cheetah_dir_env" where
  "call_env B self (Step action) =
     (case step B self action of Inl e \<Rightarrow> Inl e | Inr (r, self') \<Rightarrow> Inr self')"
| "call_env B self (SampleTasks num_tasks) =
     (case sample_tasks B self num_tasks of Inl e \<Rightarrow> Inl e | Inr (ts, self') \<Rightarrow> Inr self')"
| "call_env B self (SetTask task) = set_task self task"

fun calls ::
  "'g meta_base \<Rightarrow> 'g half_cheetah_dir_env \<Rightarrow> call list \<Rightarrow> error + 'g half_cheetah_dir_env" where
  "calls B self [] = Inr self"
| "calls B self (c # cs) =
     (case call_env B self c of Inl e \<Rightarrow> Inl e | Inr self' \<Rightarrow> calls B self' cs)"

text \<open>
  A task as the docstrings describe it: its direction, when it has one, is \<open>-1\<close> or
  \<open>1\<close>. The constructor's argument may also be \<^verbatim>\<open>None\<close>.
\<close>

definition direction_ok :: "task \<Rightarrow> bool" where
  "direction_ok task =
     (case task ''direction'' of None \<Rightarrow> True | Some d \<Rightarrow> d = 1 \<or> d = - 1)"

fun task_arg_ok :: "task option \<Rightarrow> bool" where
  "task_arg_ok None = True"
| "task_arg_ok (Some t) = direction_ok t"

fun call_ok :: "call \<Rightarrow> bool" where
  "call_ok (SetTask task) = direction_ok task"
| "call_ok _ = True"

subsection \<open>What the class relies on in numpy's generator\<close>

text \<open>
  \<^verbatim>\<open>binomial(n, p, size=(k, ))\<close> with a size that is not negative and a probability
  between 0 and 1 returns an array of \<open>k\<close> integers, each a number of successes among
  \<open>n\<close> trials. The distribution of the draws is a property of the generator and is not
  part of this embedding.
\<close>

definition binomial_contract :: "'g meta_base \<Rightarrow> bool" where
  "binomial_contract B \<longleftrightarrow>
     (\<forall>g n p k. 0 \<le> k \<and> 0 \<le> p \<and> p \<le> 1 \<longrightarrow>
        (\<exists>draws g'. np_binomial B g n p k = Inr (draws, g') \<and>
           length draws = nat k \<and> (\<forall>b\<in>set draws. 0 \<le> b \<and> b \<le> int n)))"

section \<open>The benchmark harness\<close>

text \<open>
  \<^verbatim>\<open>test_benchmark_rl2_new2.py\<close>: the module-level switch between the meta-world and
  the half-cheetah benchmark (false: half-cheetah), the dictionary
  \<^verbatim>\<open>hyper_parameters\<close> and the calls that \<^verbatim>\<open>run_garage\<close> makes on the runner.
\<close>

definition ML_switch :: bool where
  "ML_switch = False"

record hyper_parameter_dict =
  meta_batch_size :: int
  hidden_sizes :: "int list"
  gae_lambda :: real
  discount :: real
  max_path_length :: int
  n_itr :: int
  steps_per_epoch :: int
  rollout_per_task :: int
  positive_adv :: bool
  normalize_adv :: bool
  optimizer_lr :: real
  lr_clip_range :: real
  optimizer_max_epochs :: int
  n_trials :: int
  n_test_tasks :: int
  cell_type :: string
  sampler_cls :: string
  use_all_workers :: bool

definition hyper_parameters :: hyper_parameter_dict where
  "hyper_parameters =
     \<lparr>meta_batch_size = 50,
      hidden_sizes = [64],
      gae_lambda = 1,
      discount = 99 / 100,
      max_path_length = 150,
      n_itr = (if ML_switch then 100 else 50),
      steps_per_epoch = 10,
      rollout_per_task = 10,
      positive_adv = False,
      normalize_adv = True,
      optimizer_lr = 1 / 1000,
      lr_clip_range = 2 / 10,
      optimizer_max_epochs = 5,
      n_trials = 1,
      n_test_tasks = 10,
      cell_type = ''gru'',
      sampler_cls = ''RaySampler'',
      use_all_workers = True\<rparr>"

text \<open>
  The calls on the runner, with the keyword arguments that come from the dictionary:
  \<^verbatim>\<open>setup(..., n_workers, sampler_args=dict(use_all_workers, n_paths_per_trial))\<close>,
  \<^verbatim>\<open>setup_meta_evaluator(..., n_test_tasks)\<close> and \<^verbatim>\<open>train(n_epochs, batch_size)\<close>.
\<close>

datatype runner_call =
  Setup int bool int
| SetupMetaEvaluator int
| Train int int

text \<open>
  \<^verbatim>\<open>run_garage\<close>, as the list of calls it makes on the runner, in order. The dictionary
  it reads is a module-level variable in the source and an argument here. Building the
  policy, the baseline and the algorithms, and the logger outputs, are left out.
\<close>

definition run_garage :: "hyper_parameter_dict \<Rightarrow> runner_call list" where
  "run_garage hp =
     [Setup (meta_batch_size hp) (use_all_workers hp) (rollout_per_task hp),
      SetupMetaEvaluator (n_test_tasks hp),
      Train (n_itr hp) (meta_batch_size hp * rollout_per_task hp * max_path_length hp)]"

fun is_Train :: "runner_call \<Rightarrow> bool" where
  "is_Train (Train n_epochs batch_size) = True"
| "is_Train _ = False"

section \<open>Concrete inputs\<close>

subsection \<open>A small simulator to run the definitions on\<close>

text \<open>
  A stand-in for the inherited methods, used to evaluate the definitions at concrete
  inputs: every position moves by \<open>n\<close> frames of \<open>0.02\<close> times the first control; an
  empty action is refused. The random source is a list of bits still to be drawn, and a
  negative size is refused as numpy does.
\<close>

definition demo_do_simulation :: "sim_data \<Rightarrow> real list \<Rightarrow> nat \<Rightarrow> error + sim_data" where
  "demo_do_simulation s action n =
     (case action of
        [] \<Rightarrow> Inl ValueError
      | u # _ \<Rightarrow> Inr (s\<lparr>qpos := map (\<lambda>x. x + real n * (2 / 100) * u) (qpos s), qvel := map (\<lambda>_. u) (qvel s)\<rparr>))"

definition demo_binomial :: "int list \<Rightarrow> nat \<Rightarrow> real \<Rightarrow> int \<Rightarrow> error + (int list \<times> int list)" where
  "demo_binomial g n p k =
     (if k < 0 then Inl ValueError
      else Inr (map (\<lambda>b. if b = 0 \<or> n = 0 then 0 else 1) (take (nat k) (g @ replicate (nat k) 0)),
                drop (nat k) g))"

definition demo_base :: "int list meta_base" where
  "demo_base = \<lparr>do_simulation = demo_do_simulation, get_obs = (\<lambda>s. tl (qpos s) @ qvel s),
                np_binomial = demo_binomial\<rparr>"

definition demo_env :: "int list half_cheetah_dir_env" where
  "demo_env = \<lparr>sim = \<lparr>qpos = [0, 0], qvel = [0, 0]\<rparr>, frame_skip = 5, dt = 5 / 100,
               np_random = [1, 0, 0, 1], goal_dir = 1\<rparr>"

definition demo_action :: "real list" where
  "demo_action = [1, 0, 0, 0, 0, 0]"

definition demo_base_fields :: "int list half_cheetah_env_meta_base" where
  "demo_base_fields = \<lparr>sim = \<lparr>qpos = [0, 0], qvel = [0, 0]\<rparr>, frame_skip = 5, dt = 5 / 100,
                        np_random = [1, 0, 0, 1]\<rparr>"

definition demo_result :: step_result where
  "demo_result =
     ([1 / 10, 1, 1], 2 - 5 / 100, False,
      [''reward_forward'' \<mapsto> 2, ''reward_ctrl'' \<mapsto> - (5 / 100), ''task_dir'' \<mapsto> 1])"

definition demo_env_after :: "int list half_cheetah_dir_env" where
  "demo_env_after = demo_env\<lparr>sim := \<lparr>qpos = [1 / 10, 1 / 10], qvel = [1, 1]\<rparr>\<rparr>"

definition forward_task :: task where
  "forward_task = [''direction'' \<mapsto> 1]"

definition backward_task :: task where
  "backward_task = [''direction'' \<mapsto> - 1]"

definition double_task :: task where
  "double_task = [''direction'' \<mapsto> 2]"

definition demo_env_backward :: "int list half_cheetah_dir_env" where
  "demo_env_backward = demo_env\<lparr>goal_dir := - 1\<rparr>"

definition demo_result_backward :: step_result where
  "demo_result_backward =
     ([1 / 10, 1, 1], - 2 - 5 / 100, False,
      [''reward_forward'' \<mapsto> - 2, ''reward_ctrl'' \<mapsto> - (5 / 100), ''task_dir'' \<mapsto> - 1])"

definition demo_env_backward_after :: "int list half_cheetah_dir_env" where
  "demo_env_backward_after = demo_env_backward\<lparr>sim := \<lparr>qpos = [1 / 10, 1 / 10], qvel = [1, 1]\<rparr>\<rparr>"

section \<open>Properties of step\<close>

lemma step_InrE:
  assumes "step B self action = Inr ((obs, reward, done, infos), self')"
  obtains xb rb sim' xa ra where
    "qpos (sim self) = xb # rb"
    "do_simulation B (sim self) action (frame_skip self) = Inr sim'"
    "qpos sim' = xa # ra"
    "obs = get_obs B sim'"
    "reward = goal_dir self * ((xa - xb) / dt self) - ctrl_cost action"
    "done = False"
    "infos = [''reward_forward'' \<mapsto> goal_dir self * ((xa - xb) / dt self),
              ''reward_ctrl'' \<mapsto> - ctrl_cost action,
              ''task_dir'' \<mapsto> goal_dir self]"
    "self' = self\<lparr>sim := sim'\<rparr>"
  using assms
  by (auto simp: step_def qpos0_def Let_def split: sum.splits list.splits)

lemma step_done:
  "step B self action = Inr (r, self') \<Longrightarrow> done_of r = False"
  by (cases r) (auto simp: done_of_def elim: step_InrE)

lemma rollout_ConsE:
  assumes "rollout B self (a # as) = Inr (rs, self'')"
  obtains r self' rs' where
    "step B self a = Inr (r, self')" "rollout B self' as = Inr (rs', self'')" "rs = r # rs'"
  using assms by (auto split: sum.splits prod.splits)

lemma rollout_length:
  "rollout B self actions = Inr (rs, self') \<Longrightarrow> length rs = length actions"
proof (induction actions arbitrary: self rs)
  case Nil
  then show ?case by simp
next
  case (Cons a as)
  from Cons.prems obtain r0 self0 rs0 where
    "rollout B self0 as = Inr (rs0, self')" and "rs = r0 # rs0"
    by (rule rollout_ConsE)
  then show ?case by (simp add: Cons.IH)
qed

lemma rollout_done:
  "rollout B self actions = Inr (rs, self') \<Longrightarrow> r \<in> set rs \<Longrightarrow> done_of r = False"
proof (induction actions arbitrary: self rs)
  case Nil
  then show ?case by simp
next
  case (Cons a as)
  from Cons.prems(1) obtain r0 self0 rs0 where
    s: "step B self a = Inr (r0, self0)" and
    t: "rollout B self0 as = Inr (rs0, self')" and rs: "rs = r0 # rs0"
    by (rule rollout_ConsE)
  from Cons.prems(2) rs consider "r = r0" | "r \<in> set rs0" by auto
  then show ?case
  proof cases
    case 1
    with s show ?thesis by (simp add: step_done)
  next
    case 2
    with t show ?thesis by (rule Cons.IH)
  qed
qed

lemma demo_step:
  "step demo_base demo_env demo_action = Inr (demo_result, demo_env_after)"
  by (simp add: step_def qpos0_def demo_base_def demo_env_def demo_action_def
      demo_do_simulation_def ctrl_cost_def Let_def demo_result_def demo_env_after_def)

lemma demo_dt: "dt demo_env \<noteq> 0"
  by (simp add: demo_env_def)

text \<open>
  C1. When \<^verbatim>\<open>step(action)\<close> returns on an environment with direction \<open>d\<close> and a
  non-zero \<^verbatim>\<open>dt\<close>: the simulator has been advanced by \<^verbatim>\<open>do_simulation\<close>, the forward
  velocity is the difference of the first position after and before, divided by
  \<^verbatim>\<open>dt\<close>; the forward reward reported is \<open>d\<close> times that velocity; and the reward
  returned is the forward reward minus \<open>0.5 * 0.1 * sum(action_i^2)\<close>.
\<close>

theorem step_reward_formula:
  assumes "step B self action = Inr ((obs, reward, done, infos), self')"
    and "dt self \<noteq> 0"
  shows "\<exists>xb rb xa ra.
           qpos (sim self) = xb # rb \<and>
           do_simulation B (sim self) action (frame_skip self) = Inr (sim self') \<and>
           qpos (sim self') = xa # ra \<and>
           (let forward_velocity = (xa - xb) / dt self;
                forward_reward = goal_dir self * forward_velocity
            in infos ''reward_forward'' = Some forward_reward \<and>
               reward = forward_reward - 0.5 * 0.1 * (\<Sum>a\<leftarrow>action. a\<^sup>2))"
  using assms(1) by (elim step_InrE) (simp add: ctrl_cost_def)

theorem step_reward_formula_witness:
  "step demo_base demo_env demo_action = Inr (demo_result, demo_env_after) \<and>
   dt demo_env \<noteq> 0 \<and>
   qpos (sim demo_env) = [0, 0] \<and>
   qpos (sim demo_env_after) = [1 / 10, 1 / 10] \<and>
   infos_of demo_result ''reward_forward'' = Some (goal_dir demo_env * ((1 / 10 - 0) / dt demo_env)) \<and>
   reward_of demo_result =
     goal_dir demo_env * ((1 / 10 - 0) / dt demo_env) - 0.5 * 0.1 * (\<Sum>a\<leftarrow>demo_action. a\<^sup>2) \<and>
   reward_of demo_result = 195 / 100"
  using step_reward_formula [OF demo_step [unfolded demo_result_def] demo_dt] demo_step
  by (simp add: demo_env_def demo_env_after_def demo_result_def demo_action_def
      reward_of_def infos_of_def)

text \<open>
  C6. When \<^verbatim>\<open>step(action)\<close> returns, the entry \<^verbatim>\<open>reward_ctrl\<close> of the infos is at most
  0 and equals \<open>-0.05 * sum(action_i^2)\<close>.
\<close>

theorem step_reward_ctrl:
  assumes "step B self action = Inr ((obs, reward, done, infos), self')"
  shows "\<exists>c. infos ''reward_ctrl'' = Some c \<and> c \<le> 0 \<and> c = - 0.05 * (\<Sum>a\<leftarrow>action. a\<^sup>2)"
proof -
  have "0 \<le> (\<Sum>a\<leftarrow>action. a\<^sup>2)"
    by (rule sum_list_nonneg) auto
  with assms show ?thesis
    by (elim step_InrE) (simp add: ctrl_cost_def)
qed

theorem step_reward_ctrl_witness:
  "step demo_base demo_env demo_action = Inr (demo_result, demo_env_after) \<and>
   infos_of demo_result ''reward_ctrl'' = Some (- 0.05 * (\<Sum>a\<leftarrow>demo_action. a\<^sup>2)) \<and>
   - 0.05 * (\<Sum>a\<leftarrow>demo_action. a\<^sup>2) \<le> (0 :: real)"
  using step_reward_ctrl [OF demo_step [unfolded demo_result_def]] demo_step
  by (simp add: demo_result_def demo_action_def infos_of_def)

text \<open>
  C8. The done flag that \<^verbatim>\<open>step\<close> returns is \<^verbatim>\<open>False\<close>, for a single call and for
  every call of a run of any length.
\<close>

theorem done_always_False:
  "(step B self action = Inr (r, self') \<longrightarrow> done_of r = False) \<and>
   (rollout B self actions = Inr (rs, self'') \<longrightarrow>
      length rs = length actions \<and> (\<forall>r\<in>set rs. done_of r = False))"
  by (auto simp: step_done rollout_length rollout_done)

theorem done_always_False_witness:
  "step demo_base demo_env demo_action = Inr (demo_result, demo_env_after) \<and>
   rollout demo_base demo_env [demo_action] = Inr ([demo_result], demo_env_after) \<and>
   done_of demo_result = False"
  using done_always_False [of demo_base demo_env demo_action demo_result demo_env_after
      "[demo_action]" "[demo_result]" demo_env_after] demo_step
  by simp

text \<open>
  C10. When \<^verbatim>\<open>step(action)\<close> returns, the reward is the sum of the entries
  \<^verbatim>\<open>reward_forward\<close> and \<^verbatim>\<open>reward_ctrl\<close> of the infos, and the entry \<^verbatim>\<open>task_dir\<close> is the
  direction of the environment, which the call does not change.
\<close>

theorem step_infos_consistent:
  assumes "step B self action = Inr ((obs, reward, done, infos), self')"
  shows "\<exists>rf rc. infos ''reward_forward'' = Some rf \<and> infos ''reward_ctrl'' = Some rc \<and>
           reward = rf + rc \<and>
           infos ''task_dir'' = Some (goal_dir self) \<and> goal_dir self' = goal_dir self \<and>
           dom infos = {''reward_forward'', ''reward_ctrl'', ''task_dir''}"
  using assms by (elim step_InrE) auto

theorem step_infos_consistent_witness:
  "step demo_base demo_env demo_action = Inr (demo_result, demo_env_after) \<and>
   reward_of demo_result = 2 + - (5 / 100) \<and>
   infos_of demo_result ''reward_forward'' = Some 2 \<and>
   infos_of demo_result ''reward_ctrl'' = Some (- (5 / 100)) \<and>
   infos_of demo_result ''task_dir'' = Some (goal_dir demo_env) \<and>
   goal_dir demo_env_after = goal_dir demo_env"
  using step_infos_consistent [OF demo_step [unfolded demo_result_def]] demo_step
  by (simp add: demo_result_def demo_env_def demo_env_after_def reward_of_def infos_of_def)

section \<open>Auxiliary facts\<close>

lemma demo_step_backward:
  "step demo_base demo_env_backward demo_action = Inr (demo_result_backward, demo_env_backward_after)"
  by (simp add: step_def qpos0_def demo_base_def demo_env_def demo_action_def demo_env_backward_def
      demo_do_simulation_def ctrl_cost_def Let_def demo_result_backward_def demo_env_backward_after_def)

lemma demo_binomial_contract: "binomial_contract demo_base"
  by (auto simp: binomial_contract_def demo_base_def demo_binomial_def)

lemma demo_sample_tasks:
  "sample_tasks demo_base demo_env 3 =
     Inr ([forward_task, backward_task, backward_task], demo_env\<lparr>np_random := [1]\<rparr>)"
  by (simp add: sample_tasks_def demo_base_def demo_env_def demo_binomial_def Let_def
      forward_task_def backward_task_def numeral_3_eq_3)

lemma step_mirror:
  assumes "sim e2 = sim e1" "frame_skip e2 = frame_skip e1" "dt e2 = dt e1"
    and "goal_dir e2 = - goal_dir e1"
    and "step B e1 a = Inr (r1, e1')"
  shows "\<exists>r2 e2'. step B e2 a = Inr (r2, e2') \<and>
           sim e2' = sim e1' \<and> frame_skip e2' = frame_skip e1' \<and> dt e2' = dt e1' \<and>
           goal_dir e1' = goal_dir e1 \<and> goal_dir e2' = goal_dir e2 \<and>
           (\<exists>f c. infos_of r1 ''reward_forward'' = Some f \<and>
                  infos_of r2 ''reward_forward'' = Some (- f) \<and>
                  infos_of r1 ''reward_ctrl'' = Some c \<and>
                  infos_of r2 ''reward_ctrl'' = Some c)"
proof -
  obtain obs reward dn infos where r1: "r1 = (obs, reward, dn, infos)"
    by (cases r1) auto
  from assms(5) [unfolded r1] show ?thesis
  proof (rule step_InrE)
    fix xb rb sim' xa ra
    assume a: "qpos (sim e1) = xb # rb"
      "do_simulation B (sim e1) a (frame_skip e1) = Inr sim'"
      "qpos sim' = xa # ra"
      "infos = [''reward_forward'' \<mapsto> goal_dir e1 * ((xa - xb) / dt e1),
              ''reward_ctrl'' \<mapsto> - ctrl_cost a, ''task_dir'' \<mapsto> goal_dir e1]"
      "e1' = e1\<lparr>sim := sim'\<rparr>"
    then show ?thesis
      using assms(1-4)
      by (simp add: r1 step_def qpos0_def Let_def infos_of_def)
  qed
qed

lemma step_fails_same:
  assumes "sim e2 = sim e1" "frame_skip e2 = frame_skip e1"
    and "step B e1 a = Inl err"
  shows "step B e2 a = Inl err"
  using assms by (auto simp: step_def qpos0_def Let_def split: sum.splits list.splits)

lemma rollout_mirror:
  assumes "sim e2 = sim e1" "frame_skip e2 = frame_skip e1" "dt e2 = dt e1"
    and "goal_dir e2 = - goal_dir e1"
    and "rollout B e1 actions = Inr (rs1, e1')"
  shows "\<exists>rs2 e2'. rollout B e2 actions = Inr (rs2, e2') \<and>
           list_all2 (\<lambda>r1 r2. \<exists>f c. infos_of r1 ''reward_forward'' = Some f \<and>
                  infos_of r2 ''reward_forward'' = Some (- f) \<and>
                  infos_of r1 ''reward_ctrl'' = Some c \<and>
                  infos_of r2 ''reward_ctrl'' = Some c) rs1 rs2"
  using assms
proof (induction actions arbitrary: e1 e2 rs1)
  case Nil
  then show ?case by simp
next
  case (Cons a as)
  from Cons.prems(5) obtain r1 m1 rs1' where
    s1: "step B e1 a = Inr (r1, m1)" and t1: "rollout B m1 as = Inr (rs1', e1')"
    and rs1: "rs1 = r1 # rs1'"
    by (rule rollout_ConsE)
  from step_mirror [OF Cons.prems(1-4) s1] obtain r2 m2 where
    s2: "step B e2 a = Inr (r2, m2)" and
    m: "sim m2 = sim m1" "frame_skip m2 = frame_skip m1" "dt m2 = dt m1"
       "goal_dir m1 = goal_dir e1" "goal_dir m2 = goal_dir e2" and
    r: "\<exists>f c. infos_of r1 ''reward_forward'' = Some f \<and>
                  infos_of r2 ''reward_forward'' = Some (- f) \<and>
                  infos_of r1 ''reward_ctrl'' = Some c \<and>
                  infos_of r2 ''reward_ctrl'' = Some c"
    by blast
  from m Cons.prems(4) have g: "goal_dir m2 = - goal_dir m1" by simp
  from Cons.IH [OF m(1-3) g t1] obtain rs2' e2' where
    t2: "rollout B m2 as = Inr (rs2', e2')" and
    l: "list_all2 (\<lambda>r1 r2. \<exists>f c. infos_of r1 ''reward_forward'' = Some f \<and>
                  infos_of r2 ''reward_forward'' = Some (- f) \<and>
                  infos_of r1 ''reward_ctrl'' = Some c \<and>
                  infos_of r2 ''reward_ctrl'' = Some c) rs1' rs2'"
    by blast
  from s2 t2 have "rollout B e2 (a # as) = Inr (r2 # rs2', e2')" by simp
  with r l rs1 show ?case by simp
qed

lemma step_sim_only:
  assumes "sim e2 = sim e1" "frame_skip e2 = frame_skip e1"
    and "step B e1 a = Inr (r1, e1')" "step B e2 a = Inr (r2, e2')"
  shows "sim e2' = sim e1' \<and> frame_skip e2' = frame_skip e1'"
  using assms by (auto simp: step_def qpos0_def Let_def split: sum.splits list.splits)

lemma step_total_same:
  assumes "sim e2 = sim e1" "frame_skip e2 = frame_skip e1"
    and "step B e1 a = Inr (r1, e1')"
  shows "\<exists>r2 e2'. step B e2 a = Inr (r2, e2')"
  using assms by (auto simp: step_def qpos0_def Let_def split: sum.splits list.splits)

lemma rollout_fails_same:
  assumes "sim e2 = sim e1" "frame_skip e2 = frame_skip e1"
    and "rollout B e1 actions = Inl err"
  shows "rollout B e2 actions = Inl err"
  using assms
proof (induction actions arbitrary: e1 e2)
  case Nil
  then show ?case by simp
next
  case (Cons a as)
  show ?case
  proof (cases "step B e1 a")
    case (Inl e)
    with Cons.prems have "err = e" by simp
    with Inl step_fails_same [OF Cons.prems(1,2)] show ?thesis by simp
  next
    case (Inr p)
    obtain r1 m1 where p: "p = (r1, m1)" by (cases p)
    from Inr p have s1: "step B e1 a = Inr (r1, m1)" by simp
    from step_total_same [OF Cons.prems(1,2) s1] obtain r2 m2 where
      s2: "step B e2 a = Inr (r2, m2)" by blast
    from step_sim_only [OF Cons.prems(1,2) s1 s2] have
      m: "sim m2 = sim m1" "frame_skip m2 = frame_skip m1" by simp_all
    from Cons.prems(3) s1 have t1: "rollout B m1 as = Inl err"
      by (simp split: sum.splits prod.splits)
    from Cons.IH [OF m t1] s2 show ?thesis by simp
  qed
qed

lemma set_task_Some:
  "task ''direction'' = Some d \<Longrightarrow> set_task self task = Inr (self\<lparr>goal_dir := d\<rparr>)"
  by (simp add: set_task_def)

lemma step_goal_dir_update:
  "step B (self\<lparr>goal_dir := d\<rparr>) action = Inr ((obs, reward, done, infos), self') \<Longrightarrow>
   \<exists>xb rb xa ra.
     qpos (sim self) = xb # rb \<and> qpos (sim self') = xa # ra \<and>
     do_simulation B (sim self) action (frame_skip self) = Inr (sim self') \<and>
     infos ''task_dir'' = Some d \<and>
     infos ''reward_forward'' = Some (d * ((xa - xb) / dt self)) \<and>
     reward = d * ((xa - xb) / dt self) - ctrl_cost action \<and>
     goal_dir self' = d"
  by (erule step_InrE) simp

lemma init_ok:
  assumes "task_arg_ok task0" and "init base task0 = Inr self0"
  shows "goal_dir self0 = 1 \<or> goal_dir self0 = - 1"
  using assms
  by (cases task0)
     (auto simp: init_def task_or_default_def default_task_def direction_ok_def
       split: option.splits if_splits)

lemma call_env_ok:
  assumes "call_ok c" and "call_env B self c = Inr self'"
    and "goal_dir self = 1 \<or> goal_dir self = - 1"
  shows "goal_dir self' = 1 \<or> goal_dir self' = - 1"
proof (cases c)
  case (Step action)
  with assms(2) obtain r where "step B self action = Inr (r, self')"
    by (auto split: sum.splits prod.splits)
  then have "goal_dir self' = goal_dir self"
    by (cases r) (auto elim: step_InrE)
  with assms(3) show ?thesis by simp
next
  case (SampleTasks n)
  with assms(2) have "goal_dir self' = goal_dir self"
    by (auto simp: sample_tasks_def Let_def split: sum.splits prod.splits)
  with assms(3) show ?thesis by simp
next
  case (SetTask task)
  with assms(1,2) show ?thesis
    by (auto simp: set_task_def direction_ok_def split: option.splits)
qed

lemma calls_ok:
  assumes "\<forall>c\<in>set cs. call_ok c" and "calls B self0 cs = Inr self"
    and "goal_dir self0 = 1 \<or> goal_dir self0 = - 1"
  shows "goal_dir self = 1 \<or> goal_dir self = - 1"
  using assms
proof (induction cs arbitrary: self0)
  case Nil
  then show ?case by simp
next
  case (Cons c cs)
  from Cons.prems(2) obtain m where
    c: "call_env B self0 c = Inr m" and t: "calls B m cs = Inr self"
    by (auto split: sum.splits)
  from Cons.prems(1) have ok: "call_ok c" and oks: "\<forall>c\<in>set cs. call_ok c" by simp_all
  from call_env_ok [OF ok c Cons.prems(3)] have "goal_dir m = 1 \<or> goal_dir m = - 1" .
  with Cons.IH [OF oks t] show ?case by simp
qed

section \<open>Runs in opposite directions\<close>

text \<open>
  C2. Two environments with the same simulator state, frame skip and \<^verbatim>\<open>dt\<close>, one with
  direction \<open>1\<close> and one with direction \<open>-1\<close>, are run on the same sequence of actions.
  If the first run raises, the second raises the same error. Otherwise both return one
  result for each action, and at every step the two values of \<^verbatim>\<open>reward_forward\<close> are
  negatives of each other and the two values of \<^verbatim>\<open>reward_ctrl\<close> are equal.
\<close>

theorem opposite_directions_mirror:
  assumes "sim e2 = sim e1" "frame_skip e2 = frame_skip e1" "dt e2 = dt e1"
    and "goal_dir e1 = 1" "goal_dir e2 = - 1"
  shows "case rollout B e1 actions of
           Inl err \<Rightarrow> rollout B e2 actions = Inl err
         | Inr (rs1, e1') \<Rightarrow>
             (\<exists>rs2 e2'. rollout B e2 actions = Inr (rs2, e2') \<and>
                length rs1 = length actions \<and> length rs2 = length actions \<and>
                (\<forall>i<length actions. \<exists>f c.
                   infos_of (rs1 ! i) ''reward_forward'' = Some f \<and>
                   infos_of (rs2 ! i) ''reward_forward'' = Some (- f) \<and>
                   infos_of (rs1 ! i) ''reward_ctrl'' = Some c \<and>
                   infos_of (rs2 ! i) ''reward_ctrl'' = Some c))"
proof (cases "rollout B e1 actions")
  case (Inl err)
  with rollout_fails_same [OF assms(1,2)] show ?thesis by simp
next
  case (Inr p)
  obtain rs1 e1' where p: "p = (rs1, e1')" by (cases p)
  from Inr p have t1: "rollout B e1 actions = Inr (rs1, e1')" by simp
  from assms(4,5) have g: "goal_dir e2 = - goal_dir e1" by simp
  from rollout_mirror [OF assms(1-3) g t1] obtain rs2 e2' where
    t2: "rollout B e2 actions = Inr (rs2, e2')" and
    l: "list_all2 (\<lambda>r1 r2. \<exists>f c. infos_of r1 ''reward_forward'' = Some f \<and>
                  infos_of r2 ''reward_forward'' = Some (- f) \<and>
                  infos_of r1 ''reward_ctrl'' = Some c \<and>
                  infos_of r2 ''reward_ctrl'' = Some c) rs1 rs2"
    by blast
  have n1: "length rs1 = length actions" using t1 by (rule rollout_length)
  have n2: "length rs2 = length actions" using t2 by (rule rollout_length)
  from l n1 have "\<forall>i<length actions. \<exists>f c.
                   infos_of (rs1 ! i) ''reward_forward'' = Some f \<and>
                   infos_of (rs2 ! i) ''reward_forward'' = Some (- f) \<and>
                   infos_of (rs1 ! i) ''reward_ctrl'' = Some c \<and>
                   infos_of (rs2 ! i) ''reward_ctrl'' = Some c"
    by (simp add: list_all2_conv_all_nth)
  with t1 t2 n1 n2 show ?thesis by simp
qed

theorem opposite_directions_mirror_witness:
  "sim demo_env_backward = sim demo_env \<and>
   frame_skip demo_env_backward = frame_skip demo_env \<and>
   dt demo_env_backward = dt demo_env \<and>
   goal_dir demo_env = 1 \<and> goal_dir demo_env_backward = - 1 \<and>
   rollout demo_base demo_env [demo_action] = Inr ([demo_result], demo_env_after) \<and>
   rollout demo_base demo_env_backward [demo_action] =
     Inr ([demo_result_backward], demo_env_backward_after) \<and>
   infos_of demo_result ''reward_forward'' = Some 2 \<and>
   infos_of demo_result_backward ''reward_forward'' = Some (- 2) \<and>
   infos_of demo_result ''reward_ctrl'' = Some (- (5 / 100)) \<and>
   infos_of demo_result_backward ''reward_ctrl'' = Some (- (5 / 100))"
proof -
  have h: "sim demo_env_backward = sim demo_env"
    "frame_skip demo_env_backward = frame_skip demo_env"
    "dt demo_env_backward = dt demo_env"
    "goal_dir demo_env = 1" "goal_dir demo_env_backward = - 1"
    by (simp_all add: demo_env_backward_def demo_env_def)
  from opposite_directions_mirror [OF h, of demo_base "[demo_action]"] h
  show ?thesis
    by (simp add: demo_step demo_step_backward demo_result_def demo_result_backward_def
        infos_of_def)
qed

section \<open>Properties of sample\_tasks, set\_task and the constructor\<close>

text \<open>
  C3. With a generator that meets the contract of \<^verbatim>\<open>binomial\<close>, for every
  \<^verbatim>\<open>num_tasks\<close> that is not negative, \<^verbatim>\<open>sample_tasks(num_tasks)\<close> returns: a list of
  exactly \<^verbatim>\<open>num_tasks\<close> tasks, the \<open>i\<close>-th one made from the \<open>i\<close>-th draw \<open>b\<close> of the one
  call \<^verbatim>\<open>binomial(1, p=0.5, size=(num_tasks, ))\<close> on the environment's own random
  source, as \<open>2 * b - 1\<close>; each task has the single key \<^verbatim>\<open>'direction'\<close>, with value
  \<open>-1\<close> or \<open>1\<close>. Only the random source of the environment changes.
\<close>

theorem sample_tasks_spec:
  assumes "binomial_contract B" and "0 \<le> num_tasks"
  shows "\<exists>draws g' tasks.
           np_binomial B (np_random self) 1 (1 / 2) num_tasks = Inr (draws, g') \<and>
           sample_tasks B self num_tasks = Inr (tasks, self\<lparr>np_random := g'\<rparr>) \<and>
           length draws = nat num_tasks \<and> length tasks = nat num_tasks \<and>
           (\<forall>i<nat num_tasks.
              (draws ! i = 0 \<or> draws ! i = 1) \<and>
              dom (tasks ! i) = {''direction''} \<and>
              (tasks ! i) ''direction'' = Some (2 * real_of_int (draws ! i) - 1) \<and>
              ((tasks ! i) ''direction'' = Some (- 1) \<or> (tasks ! i) ''direction'' = Some 1))"
proof -
  have p: "0 \<le> num_tasks \<and> (0 :: real) \<le> 1 / 2 \<and> (1 :: real) / 2 \<le> 1"
    using assms(2) by simp
  from assms(1) have "\<exists>draws g'. np_binomial B (np_random self) 1 (1 / 2) num_tasks = Inr (draws, g') \<and>
           length draws = nat num_tasks \<and> (\<forall>b\<in>set draws. 0 \<le> b \<and> b \<le> int 1)"
    unfolding binomial_contract_def using p by blast
  then obtain draws g' where
    b: "np_binomial B (np_random self) 1 (1 / 2) num_tasks = Inr (draws, g')" and
    n: "length draws = nat num_tasks" and
    r: "\<forall>b\<in>set draws. 0 \<le> b \<and> b \<le> int 1"
    by blast
  let ?tasks = "map (\<lambda>direction. [''direction'' \<mapsto> real_of_int direction])
                  (map (\<lambda>b. 2 * b - 1) draws)"
  have s: "sample_tasks B self num_tasks = Inr (?tasks, self\<lparr>np_random := g'\<rparr>)"
    using b by (simp add: sample_tasks_def Let_def)
  have "(draws ! i = 0 \<or> draws ! i = 1) \<and>
        dom (?tasks ! i) = {''direction''} \<and>
        (?tasks ! i) ''direction'' = Some (2 * real_of_int (draws ! i) - 1) \<and>
        ((?tasks ! i) ''direction'' = Some (- 1) \<or> (?tasks ! i) ''direction'' = Some 1)"
    if "i < nat num_tasks" for i
  proof -
    from that n have "draws ! i \<in> set draws" by simp
    with r have "draws ! i = 0 \<or> draws ! i = 1" by fastforce
    with that n show ?thesis by auto
  qed
  with b s n show ?thesis by auto
qed

theorem sample_tasks_spec_witness:
  "binomial_contract demo_base \<and> (0 :: int) \<le> 3 \<and>
   np_binomial demo_base (np_random demo_env) 1 (1 / 2) 3 = Inr ([1, 0, 0], [1]) \<and>
   sample_tasks demo_base demo_env 3 =
     Inr ([forward_task, backward_task, backward_task], demo_env\<lparr>np_random := [1]\<rparr>) \<and>
   forward_task ''direction'' = Some 1 \<and> backward_task ''direction'' = Some (- 1) \<and>
   dom forward_task = {''direction''} \<and> dom backward_task = {''direction''}"
proof -
  have k: "(0 :: int) \<le> 3" by simp
  have d: "np_binomial demo_base (np_random demo_env) 1 (1 / 2) 3 = Inr ([1, 0, 0], [1])"
    by (simp add: demo_base_def demo_env_def demo_binomial_def numeral_3_eq_3)
  from sample_tasks_spec [OF demo_binomial_contract k, of demo_env] show ?thesis
    using demo_binomial_contract d demo_sample_tasks
    by (simp add: forward_task_def backward_task_def)
qed

text \<open>
  C4. \<^verbatim>\<open>set_task(task)\<close> with a task that has a direction \<open>d\<close> returns the environment
  with \<^verbatim>\<open>_goal_dir\<close> replaced by \<open>d\<close> and nothing else changed: the simulator state
  (positions and velocities), the frame skip, \<^verbatim>\<open>dt\<close> and the random source are the
  same. The next \<^verbatim>\<open>step\<close> starts from the same simulator state and uses \<open>d\<close>: it reports
  \<open>d\<close> as \<^verbatim>\<open>task_dir\<close> and \<open>d\<close> times the forward velocity as \<^verbatim>\<open>reward_forward\<close>.
\<close>

theorem set_task_frame:
  assumes "task ''direction'' = Some d"
  shows "\<exists>self'. set_task self task = Inr self' \<and>
           self' = self\<lparr>goal_dir := d\<rparr> \<and>
           goal_dir self' = d \<and>
           sim self' = sim self \<and> qpos (sim self') = qpos (sim self) \<and>
           qvel (sim self') = qvel (sim self) \<and>
           frame_skip self' = frame_skip self \<and> dt self' = dt self \<and>
           np_random self' = np_random self \<and>
           (\<forall>B action obs reward done infos self''.
              step B self' action = Inr ((obs, reward, done, infos), self'') \<longrightarrow>
                (\<exists>xb rb xa ra.
                   qpos (sim self) = xb # rb \<and> qpos (sim self'') = xa # ra \<and>
                   do_simulation B (sim self) action (frame_skip self) = Inr (sim self'') \<and>
                   infos ''task_dir'' = Some d \<and>
                   infos ''reward_forward'' = Some (d * ((xa - xb) / dt self)) \<and>
                   reward = d * ((xa - xb) / dt self) - ctrl_cost action \<and>
                   goal_dir self'' = d))"
  using assms by (auto simp: set_task_Some dest: step_goal_dir_update)

theorem set_task_frame_witness:
  "backward_task ''direction'' = Some (- 1) \<and>
   set_task demo_env backward_task = Inr demo_env_backward \<and>
   sim demo_env_backward = sim demo_env \<and>
   frame_skip demo_env_backward = frame_skip demo_env \<and>
   dt demo_env_backward = dt demo_env \<and>
   np_random demo_env_backward = np_random demo_env \<and>
   goal_dir demo_env_backward = - 1 \<and>
   step demo_base demo_env_backward demo_action =
     Inr (demo_result_backward, demo_env_backward_after) \<and>
   infos_of demo_result_backward ''task_dir'' = Some (- 1) \<and>
   infos_of demo_result_backward ''reward_forward'' = Some (- 2)"
proof -
  have h: "backward_task ''direction'' = Some (- 1)"
    by (simp add: backward_task_def)
  from set_task_frame [of backward_task "- 1" demo_env, OF h] show ?thesis
    using h demo_step_backward
    by (simp add: set_task_def demo_env_backward_def demo_result_backward_def infos_of_def)
qed

text \<open>
  C5, as stated, fails: \<^verbatim>\<open>set_task\<close> and the constructor store the direction they are
  given. On an environment with direction \<open>1\<close>, \<^verbatim>\<open>set_task({'direction': 2.0})\<close> leaves
  the direction \<open>2\<close>, and so does the constructor called with that task.
\<close>

theorem goal_dir_unchecked:
  "goal_dir demo_env = 1 \<and>
   set_task demo_env double_task = Inr (demo_env\<lparr>goal_dir := 2\<rparr>) \<and>
   init demo_base_fields (Some double_task) = Inr (demo_env\<lparr>goal_dir := 2\<rparr>) \<and>
   goal_dir (demo_env\<lparr>goal_dir := 2\<rparr>) \<notin> {- 1, 1}"
  by (simp add: set_task_def init_def task_or_default_def double_task_def demo_env_def
      demo_base_fields_def)

text \<open>
  C5, amended. If the constructor is called with no task, with an empty task or with a
  task whose direction is \<open>-1\<close> or \<open>1\<close>, and every later \<^verbatim>\<open>set_task\<close> is given a task
  whose direction is \<open>-1\<close> or \<open>1\<close>, then after any sequence of calls of \<^verbatim>\<open>step\<close>,
  \<^verbatim>\<open>sample_tasks\<close> and \<^verbatim>\<open>set_task\<close> that returns, the direction of the environment is
  \<open>-1\<close> or \<open>1\<close>.
\<close>

theorem goal_dir_invariant:
  assumes "task_arg_ok task0" and "init base task0 = Inr self0"
    and "\<forall>c\<in>set cs. call_ok c" and "calls B self0 cs = Inr self"
  shows "goal_dir self = 1 \<or> goal_dir self = - 1"
  using calls_ok [OF assms(3,4) init_ok [OF assms(1,2)]] .

theorem goal_dir_invariant_witness:
  "task_arg_ok None \<and> init demo_base_fields None = Inr demo_env \<and>
   call_ok (Step demo_action) \<and> call_ok (SetTask backward_task) \<and> call_ok (SampleTasks 3) \<and>
   calls demo_base demo_env [Step demo_action, SetTask backward_task, SampleTasks 3] =
     Inr (demo_env_after\<lparr>goal_dir := - 1, np_random := [1]\<rparr>) \<and>
   goal_dir (demo_env_after\<lparr>goal_dir := - 1, np_random := [1]\<rparr>) = - 1"
proof -
  have t: "task_arg_ok None" by simp
  have i: "init demo_base_fields None = Inr demo_env"
    by (simp add: init_def task_or_default_def default_task_def demo_base_fields_def demo_env_def)
  have o: "\<forall>c\<in>set [Step demo_action, SetTask backward_task, SampleTasks 3]. call_ok c"
    by (simp add: direction_ok_def backward_task_def)
  have s: "sample_tasks demo_base (demo_env_after\<lparr>goal_dir := - 1\<rparr>) 3 =
     Inr ([forward_task, backward_task, backward_task],
          demo_env_after\<lparr>goal_dir := - 1, np_random := [1]\<rparr>)"
    by (simp add: sample_tasks_def demo_base_def demo_env_def demo_env_after_def
        demo_binomial_def Let_def forward_task_def backward_task_def numeral_3_eq_3)
  have c: "calls demo_base demo_env [Step demo_action, SetTask backward_task, SampleTasks 3] =
     Inr (demo_env_after\<lparr>goal_dir := - 1, np_random := [1]\<rparr>)"
    by (simp add: demo_step s set_task_def backward_task_def)
  from goal_dir_invariant [OF t i o c] show ?thesis
    using t i o c by simp
qed

text \<open>
  C7. \<^verbatim>\<open>set_task({'direction': -1.0})\<close> followed by \<^verbatim>\<open>set_task({'direction': 1.0})\<close>
  gives the environment that \<^verbatim>\<open>set_task({'direction': 1.0})\<close> alone gives; when the
  direction was \<open>1\<close> before, as after a construction with no task, it gives back the
  environment itself. Setting the same task twice is the same as setting it once, and of
  two task changes in a row only the last one counts. \<^verbatim>\<open>set_task\<close> with a task that has
  a direction returns whatever the state of the environment.
\<close>

theorem set_task_last_wins:
  "set_task self backward_task = Inr (self\<lparr>goal_dir := - 1\<rparr>) \<and>
   set_task (self\<lparr>goal_dir := - 1\<rparr>) forward_task = set_task self forward_task \<and>
   set_task self forward_task = Inr (self\<lparr>goal_dir := 1\<rparr>) \<and>
   (goal_dir self = 1 \<longrightarrow> set_task (self\<lparr>goal_dir := - 1\<rparr>) forward_task = Inr self) \<and>
   (init base None = Inr self \<longrightarrow> set_task (self\<lparr>goal_dir := - 1\<rparr>) forward_task = Inr self) \<and>
   (set_task self task = Inr self' \<longrightarrow> set_task self' task = Inr self') \<and>
   (set_task self task1 = Inr self1 \<longrightarrow> set_task self1 task2 = set_task self task2)"
  by (auto simp: set_task_def forward_task_def backward_task_def init_def task_or_default_def
      default_task_def split: option.splits)

theorem set_task_last_wins_witness:
  "goal_dir demo_env = 1 \<and>
   init demo_base_fields None = Inr demo_env \<and>
   set_task demo_env backward_task = Inr demo_env_backward \<and>
   set_task demo_env_backward forward_task = Inr demo_env \<and>
   set_task demo_env forward_task = Inr demo_env \<and>
   set_task demo_env_backward backward_task = Inr demo_env_backward"
proof -
  have g: "goal_dir demo_env = 1" by (simp add: demo_env_def)
  have i: "init demo_base_fields None = Inr demo_env"
    by (simp add: init_def task_or_default_def default_task_def demo_base_fields_def demo_env_def)
  have b: "set_task demo_env backward_task = Inr demo_env_backward"
    by (simp add: set_task_def backward_task_def demo_env_backward_def)
  from set_task_last_wins [of demo_env demo_base_fields backward_task demo_env_backward
      backward_task demo_env_backward forward_task]
  show ?thesis
    using g i b by (simp add: demo_env_backward_def)
qed

section \<open>The call to the training loop\<close>

text \<open>
  C9. \<^verbatim>\<open>run_garage\<close> calls \<^verbatim>\<open>train\<close> once, with \<^verbatim>\<open>n_epochs\<close> the entry \<^verbatim>\<open>n_itr\<close> of the
  hyper-parameters and \<^verbatim>\<open>batch_size\<close> the product of \<^verbatim>\<open>meta_batch_size\<close>,
  \<^verbatim>\<open>rollout_per_task\<close> and \<^verbatim>\<open>max_path_length\<close>; with the configured hyper-parameters
  that is 50 epochs of \<open>50 * 10 * 150 = 75000\<close> samples.
\<close>

theorem run_garage_train_call:
  "filter is_Train (run_garage hp) =
     [Train (n_itr hp) (meta_batch_size hp * rollout_per_task hp * max_path_length hp)] \<and>
   filter is_Train (run_garage hyper_parameters) = [Train 50 (50 * 10 * 150)] \<and>
   last (run_garage hyper_parameters) = Train 50 75000"
  by (simp add: run_garage_def hyper_parameters_def ML_switch_def)

end
